theory Spec2Isabelle
  imports Complex_Main "HOL-Library.Char_ord" "HOL-Library.List_Lexorder"
begin

section \<open>Shared types\<close>

text \<open>
  \<^verbatim>\<open>src/types/modes.py\<close>: the two command modes; \<^verbatim>\<open>default_mode\<close> is an alias of
  \<^verbatim>\<open>DICTATION\<close>.
\<close>

datatype CommandMode = DICTATION | ACTION

definition default_mode :: CommandMode where
  "default_mode = DICTATION"

text \<open>\<^verbatim>\<open>src/types/status_messages.py\<close>: the status enumeration and the string value of each member.\<close>

datatype StatusMessage =
    READY | STARTING | STARTED | STOPPED | RESTARTING | BUSY | SETTINGS_SAVED
  | SETTINGS_SAVED_RESTARTING | HOTKEY_PRESSED | HOTKEY_IGNORED | PROCESSING_BUSY
  | ALREADY_RECORDING | LISTENING | LISTENER_FAILED | RECORDING | ERROR_RECORDING
  | TRANSCRIBING | TRANSCRIBED | ERROR

fun status_value :: "StatusMessage \<Rightarrow> string" where
  "status_value READY = ''Ready''"
| "status_value STARTING = ''Starting background application thread...''"
| "status_value STARTED = ''Application thread started. Listening for hotkey.''"
| "status_value STOPPED = ''Application stopped''"
| "status_value RESTARTING = ''Restarting application...''"
| "status_value BUSY = ''Busy processing previous command''"
| "status_value SETTINGS_SAVED = ''Settings saved.''"
| "status_value SETTINGS_SAVED_RESTARTING = ''Settings saved. Restarting application...''"
| "status_value HOTKEY_PRESSED = ''Hotkey pressed, starting command processing...''"
| "status_value HOTKEY_IGNORED = ''Hotkey ignored: Application not running.''"
| "status_value PROCESSING_BUSY = ''Processing busy, please wait...''"
| "status_value ALREADY_RECORDING = ''Already recording...''"
| "status_value LISTENING = ''Listening for hotkey '' @ [CHR 0x27] @ ''{hotkey}'' @ [CHR 0x27] @ ''...''"
| "status_value LISTENER_FAILED = ''Hotkey listener failed to start!''"
| "status_value RECORDING = ''Recording command...''"
| "status_value ERROR_RECORDING = ''Error processing audio''"
| "status_value TRANSCRIBING = ''Transcribing command...''"
| "status_value TRANSCRIBED = ''Transcribed: '' @ [CHR 0x27] @ ''{text}'' @ [CHR 0x27]"
| "status_value ERROR = ''Error: {error}''"

text \<open>
  What travels on the status queue. \<^verbatim>\<open>CommandProcessor._update_status\<close> is called both with
  enum members (\<^verbatim>\<open>StatusMessage.BUSY\<close>) and with plain strings (\<^verbatim>\<open>"Ready"\<close>) and puts
  whatever it gets; the recorder and the runner put strings.
\<close>

datatype status_item = Member StatusMessage | Str string

text \<open>
  \<^verbatim>\<open>queue.Queue(maxsize)\<close>: FIFO contents and the bound; \<^verbatim>\<open>maxsize = 0\<close> means unbounded,
  as for the queues the application builds (\<^verbatim>\<open>queue.Queue()\<close>). \<^verbatim>\<open>put_nowait\<close> raises
  \<^verbatim>\<open>queue.Full\<close> on a full queue, here the value \<open>None\<close>.
\<close>

record 'a py_queue =
  maxsize :: nat
  items :: "'a list"

definition full :: "'a py_queue \<Rightarrow> bool" where
  "full q = (0 < maxsize q \<and> maxsize q \<le> length (items q))"

definition put_nowait :: "'a \<Rightarrow> 'a py_queue \<Rightarrow> 'a py_queue option" where
  "put_nowait x q = (if full q then None else Some (q\<lparr>items := items q @ [x]\<rparr>))"

text \<open>
  The status queue is one object shared by the runner, the recorder and the command
  processor (\<^verbatim>\<open>containers.py\<close>), and each of them may have been built without one
  (\<^verbatim>\<open>status_queue: queue.Queue | None\<close>). The model passes its content through every function
  that can put on it. The three \<^verbatim>\<open>_update_status\<close> methods all do the following with the item
  they put: nothing without a queue, and a message that meets a full queue is dropped.
\<close>

type_synonym status_queue = "status_item py_queue option"

definition put_status :: "status_item \<Rightarrow> status_queue \<Rightarrow> status_queue" where
  "put_status m sq =
     (case sq of
        None \<Rightarrow> None
      | Some q \<Rightarrow> (case put_nowait m q of None \<Rightarrow> Some q | Some q' \<Rightarrow> Some q'))"

text \<open>\<^verbatim>\<open>src/types/context.py\<close>: the context dictionary, with its three keys.\<close>

record Context =
  app_name :: "string option"
  primary_context :: "string option"
  page_context :: "string option"

type_synonym bytes = "nat list"

subsection \<open>Python strings\<close>

text \<open>
  \<^verbatim>\<open>str.isspace\<close> on the code points below 256 (a \<open>char\<close> is one code point here):
  tab to carriage return, the four separators 28 to 31, space, NEL and the no-break space.
\<close>

definition isspace :: "char \<Rightarrow> bool" where
  "isspace c = (of_char c \<in> {9, 10, 11, 12, 13, 28, 29, 30, 31, 32, 133, 160 :: nat})"

definition strip :: "string \<Rightarrow> string" where
  "strip s = rev (dropWhile isspace (rev (dropWhile isspace s)))"

text \<open>\<^verbatim>\<open>not s or not s.strip()\<close> for a string \<^verbatim>\<open>s\<close>.\<close>

definition blank :: "string \<Rightarrow> bool" where
  "blank s = (s = [] \<or> strip s = [])"

section \<open>CommandProcessor (\<^verbatim>\<open>src/command_processor.py\<close>)\<close>

text \<open>
  The arguments a processing thread is created with, and the processor's state:
  \<^verbatim>\<open>_is_processing\<close>, \<^verbatim>\<open>_processing_thread\<close> (a thread is named by a number), the
  processing threads that have been started and have not yet reached the \<^verbatim>\<open>finally\<close> block
  of their target (these are the threads that may be inside the engine call), the
  \<^verbatim>\<open>threading.Timer\<close>s started and not yet fired (delay and message), and the next
  unused thread number.
\<close>

record worker_args =
  w_context :: Context
  w_command :: string
  w_mode :: "CommandMode option"
  w_audio :: "bytes option"

record CommandProcessor =
  is_processing_flag :: bool
  processing_thread :: "nat option"
  workers :: "(nat \<times> worker_args) list"
  timers :: "(real \<times> status_item) list"
  next_worker :: nat

definition new_CommandProcessor :: CommandProcessor where
  "new_CommandProcessor =
     \<lparr>is_processing_flag = False, processing_thread = None, workers = [],
      timers = [], next_worker = 0\<rparr>"

definition cp_update_status :: "status_item \<Rightarrow> status_queue \<Rightarrow> status_queue" where
  "cp_update_status m sq = put_status m sq"

definition worker_alive :: "nat \<Rightarrow> CommandProcessor \<Rightarrow> bool" where
  "worker_alive t s = (t \<in> fst ` set (workers s))"

text \<open>The \<^verbatim>\<open>is_processing\<close> property, with its self-healing write.\<close>

definition is_processing :: "CommandProcessor \<Rightarrow> bool \<times> CommandProcessor" where
  "is_processing s =
     (if is_processing_flag s \<and>
         (case processing_thread s of None \<Rightarrow> True | Some t \<Rightarrow> \<not> worker_alive t s)
      then (False, s\<lparr>is_processing_flag := False\<rparr>)
      else (is_processing_flag s, s))"

text \<open>
  \<^verbatim>\<open>process_command\<close>. The guard on an empty command comes first; then, under the lock, the
  busy test, the flag and the new thread; the thread is started right after the lock is
  released, and the model takes that as one step.
\<close>

definition process_command ::
  "Context \<Rightarrow> string \<Rightarrow> bytes option \<Rightarrow> CommandMode option \<Rightarrow>
   CommandProcessor \<times> status_queue \<Rightarrow> bool \<times> CommandProcessor \<times> status_queue" where
  "process_command context_data user_text_command user_command_audio mode w =
     (case w of (s, sq) \<Rightarrow>
        if blank user_text_command \<and> (user_command_audio = None \<or> user_command_audio = Some [])
        then (False, s, cp_update_status (Member READY) sq)
        else if is_processing_flag s
        then (False, s, cp_update_status (Member BUSY) sq)
        else
          (True,
           s\<lparr>is_processing_flag := True,
             processing_thread := Some (next_worker s),
             workers := workers s @
               [(next_worker s,
                 \<lparr>w_context = context_data, w_command = user_text_command,
                  w_mode = mode, w_audio = user_command_audio\<rparr>)],
             next_worker := Suc (next_worker s)\<rparr>,
           sq))"

text \<open>
  What the processing engine does with a command is the environment's choice: it returns,
  or it raises with a message. The \<^verbatim>\<open>try\<close> body of \<^verbatim>\<open>_processing_thread_target\<close> calls
  \<^verbatim>\<open>process_action\<close> or \<^verbatim>\<open>process_dictation\<close>, and raises \<^verbatim>\<open>ValueError\<close> itself for any
  other mode.
\<close>

datatype engine_outcome = Returns | Raises string

definition try_body :: "worker_args \<Rightarrow> engine_outcome \<Rightarrow> engine_outcome" where
  "try_body a engine =
     (case w_mode a of
        Some ACTION \<Rightarrow> engine
      | Some DICTATION \<Rightarrow> engine
      | None \<Rightarrow> Raises ''Unsupported CommandMode for CommandProcessor: None'')"

definition final_status :: "engine_outcome \<Rightarrow> status_item" where
  "final_status r =
     (case r of
        Returns \<Rightarrow> Str ''Processing successful''
      | Raises error_msg \<Rightarrow> Str (''Error processing: '' @ error_msg))"

text \<open>
  The rest of \<^verbatim>\<open>_processing_thread_target\<close> for worker \<open>t\<close>, from the moment the engine call
  ends: the \<^verbatim>\<open>finally\<close> block clears the flag and the thread reference under the lock, puts
  the final status and starts the 1.5 second timer that will put \<^verbatim>\<open>"Ready"\<close>. A number that
  names no running worker changes nothing.
\<close>

definition processing_thread_finish ::
  "nat \<Rightarrow> engine_outcome \<Rightarrow> CommandProcessor \<times> status_queue \<Rightarrow> CommandProcessor \<times> status_queue" where
  "processing_thread_finish t engine w =
     (case w of (s, sq) \<Rightarrow>
        (case map_of (workers s) t of
           None \<Rightarrow> (s, sq)
         | Some a \<Rightarrow>
             (s\<lparr>is_processing_flag := False,
                processing_thread := None,
                workers := filter (\<lambda>p. fst p \<noteq> t) (workers s),
                timers := timers s @ [(1.5, Str ''Ready'')]\<rparr>,
              cp_update_status (final_status (try_body a engine)) sq)))"

text \<open>The oldest pending timer fires and calls \<^verbatim>\<open>_update_status\<close> with its message.\<close>

definition timer_fires :: "CommandProcessor \<times> status_queue \<Rightarrow> CommandProcessor \<times> status_queue" where
  "timer_fires w =
     (case w of (s, sq) \<Rightarrow>
        (case timers s of
           [] \<Rightarrow> (s, sq)
         | (d, m) # rest \<Rightarrow> (s\<lparr>timers := rest\<rparr>, cp_update_status m sq)))"

text \<open>
  What can happen to a command processor: a call of \<^verbatim>\<open>process_command\<close>, the end of a
  worker's engine call, a timer firing, and a read of the \<^verbatim>\<open>is_processing\<close> property.
\<close>

datatype cp_event =
    Submit Context string "bytes option" "CommandMode option"
  | EngineEnds nat engine_outcome
  | TimerFires
  | ReadIsProcessing

fun cp_step :: "cp_event \<Rightarrow> CommandProcessor \<times> status_queue \<Rightarrow> CommandProcessor \<times> status_queue" where
  "cp_step (Submit c t a m) w = snd (process_command c t a m w)"
| "cp_step (EngineEnds t r) w = processing_thread_finish t r w"
| "cp_step TimerFires w = timer_fires w"
| "cp_step ReadIsProcessing w = (snd (is_processing (fst w)), snd w)"

definition cp_run :: "cp_event list \<Rightarrow> CommandProcessor \<times> status_queue \<Rightarrow> CommandProcessor \<times> status_queue" where
  "cp_run es w = fold cp_step es w"


text \<open>The guard at the head of \<^verbatim>\<open>process_command\<close>: blank text and no audio.\<close>

definition empty_command :: "string \<Rightarrow> bytes option \<Rightarrow> bool" where
  "empty_command text audio \<longleftrightarrow> blank text \<and> (audio = None \<or> audio = Some [])"

text \<open>
  Values for the examples: a context, an empty unbounded status queue, and a processor that
  has accepted one dictation command whose worker is still running.
\<close>

definition example_context :: Context where
  "example_context = \<lparr>app_name = Some ''TextEdit'', primary_context = Some ''Hello'', page_context = None\<rparr>"

definition empty_queue :: status_queue where
  "empty_queue = Some \<lparr>maxsize = 0, items = []\<rparr>"

definition busy_processor :: "CommandProcessor \<times> status_queue" where
  "busy_processor =
     cp_run [Submit example_context ''select all and bold'' None (Some DICTATION)]
       (new_CommandProcessor, empty_queue)"

section \<open>ContextManager (\<^verbatim>\<open>src/context_manager.py\<close>)\<close>

text \<open>
  The state: \<^verbatim>\<open>_current_context\<close>, \<^verbatim>\<open>_fetch_thread\<close> (a thread is named by a number), the
  fetch threads that have been started and have not ended (the threads for which
  \<^verbatim>\<open>is_alive()\<close> holds) with the arguments they were created with, and the next unused thread
  number.
\<close>

record fetch_args =
  f_app_name :: string
  f_mode :: CommandMode

record ContextManager =
  current_context :: Context
  fetch_thread :: "nat option"
  fetchers :: "(nat \<times> fetch_args) list"
  next_fetcher :: nat

definition unknown_context :: Context where
  "unknown_context = \<lparr>app_name = None, primary_context = None, page_context = None\<rparr>"

definition new_ContextManager :: ContextManager where
  "new_ContextManager =
     \<lparr>current_context = unknown_context, fetch_thread = None, fetchers = [], next_fetcher = 0\<rparr>"

definition get_current_context :: "ContextManager \<Rightarrow> Context" where
  "get_current_context s = current_context s"

definition fetcher_alive :: "nat \<Rightarrow> ContextManager \<Rightarrow> bool" where
  "fetcher_alive t s = (t \<in> fst ` set (fetchers s))"

text \<open>\<^verbatim>\<open>self._fetch_thread and self._fetch_thread.is_alive()\<close>.\<close>

definition fetch_in_flight :: "ContextManager \<Rightarrow> bool" where
  "fetch_in_flight s = (case fetch_thread s of None \<Rightarrow> False | Some t \<Rightarrow> fetcher_alive t s)"

text \<open>
  What \<^verbatim>\<open>platform_utils.get_active_window_info()\<close> returned: \<^verbatim>\<open>None\<close>, or a dictionary
  whose \<^verbatim>\<open>"app_name"\<close> entry is absent (or \<^verbatim>\<open>None\<close>) or a string. The window is undetermined
  when there is no dictionary or \<^verbatim>\<open>.get("app_name")\<close> is falsy: absent, or the empty string.
\<close>

type_synonym window_info = "string option option"

definition window_app_name :: "window_info \<Rightarrow> string option" where
  "window_app_name wi =
     (case wi of
        None \<Rightarrow> None
      | Some None \<Rightarrow> None
      | Some (Some n) \<Rightarrow> (if n = [] then None else Some n))"

text \<open>
  \<^verbatim>\<open>fetch_context_async\<close>: nothing while a fetch is in flight; otherwise the snapshot is
  reset, and either the window is undetermined and the method returns with
  \<^verbatim>\<open>app_name = "Unknown"\<close>, or a new thread is created, stored and started.
\<close>

definition fetch_context_async :: "CommandMode \<Rightarrow> window_info \<Rightarrow> ContextManager \<Rightarrow> ContextManager" where
  "fetch_context_async mode active_window_info s =
     (if fetch_in_flight s then s
      else
        (case window_app_name active_window_info of
           None \<Rightarrow> s\<lparr>current_context := unknown_context\<lparr>app_name := Some ''Unknown''\<rparr>\<rparr>
         | Some n \<Rightarrow>
             s\<lparr>current_context := unknown_context\<lparr>app_name := Some n\<rparr>,
               fetch_thread := Some (next_fetcher s),
               fetchers := fetchers s @ [(next_fetcher s, \<lparr>f_app_name = n, f_mode = mode\<rparr>)],
               next_fetcher := Suc (next_fetcher s)\<rparr>))"

text \<open>
  The context engine is the environment: each of its two calls returns a string or
  \<^verbatim>\<open>None\<close>, or raises. The \<^verbatim>\<open>try\<close> body of \<^verbatim>\<open>_fetch_target\<close> leaves the pair
  (\<^verbatim>\<open>primary_context\<close>, \<^verbatim>\<open>page_context\<close>) that the \<^verbatim>\<open>finally\<close> block then sees; an exception
  leaves whatever had been assigned before it.
\<close>

record engine_answers =
  focused_cursor_context :: "string + string option"
  full_app_context :: "string + string option"

definition fetch_body :: "CommandMode \<Rightarrow> engine_answers \<Rightarrow> string option \<times> string option" where
  "fetch_body mode eng =
     (case mode of
        ACTION \<Rightarrow>
          (case full_app_context eng of Inl e \<Rightarrow> (None, None) | Inr p \<Rightarrow> (p, None))
      | DICTATION \<Rightarrow>
          (case focused_cursor_context eng of
             Inl e \<Rightarrow> (None, None)
           | Inr p \<Rightarrow>
               (case full_app_context eng of Inl e \<Rightarrow> (p, None) | Inr g \<Rightarrow> (p, g))))"

text \<open>
  The end of fetch thread \<open>t\<close>: the \<^verbatim>\<open>finally\<close> block of \<^verbatim>\<open>_fetch_target\<close> commits the
  result only if \<open>t\<close> is still \<^verbatim>\<open>self._fetch_thread\<close>; then the thread ends. A number that
  names no live fetch thread changes nothing.
\<close>

definition fetch_target_finish :: "nat \<Rightarrow> engine_answers \<Rightarrow> ContextManager \<Rightarrow> ContextManager" where
  "fetch_target_finish t eng s =
     (case map_of (fetchers s) t of
        None \<Rightarrow> s
      | Some a \<Rightarrow>
          (let r = fetch_body (f_mode a) eng;
               s' = (if fetch_thread s = Some t
                     then s\<lparr>current_context :=
                            (current_context s)\<lparr>primary_context := fst r, page_context := snd r\<rparr>\<rparr>
                     else s)
           in s'\<lparr>fetchers := filter (\<lambda>p. fst p \<noteq> t) (fetchers s)\<rparr>))"

text \<open>
  \<^verbatim>\<open>wait_for_context\<close>. Whether the awaited thread ends within the timeout is the
  environment's choice: \<open>Some eng\<close> when it ends (with these engine answers), \<open>None\<close> when
  the join times out. The result is the returned value, whether the caller blocked in
  \<^verbatim>\<open>join\<close>, and the state.
\<close>

definition wait_for_context ::
  "real \<Rightarrow> engine_answers option \<Rightarrow> ContextManager \<Rightarrow> string option \<times> bool \<times> ContextManager" where
  "wait_for_context timeout join_result s =
     (case fetch_thread s of
        None \<Rightarrow> (primary_context (current_context s), False, s)
      | Some t \<Rightarrow>
          if fetcher_alive t s then
            (case join_result of
               None \<Rightarrow> (None, True, s)
             | Some eng \<Rightarrow>
                 (let s' = fetch_target_finish t eng s
                  in (primary_context (current_context s'), True, s')))
          else (primary_context (current_context s), False, s))"

text \<open>\<^verbatim>\<open>cleanup\<close> forgets the fetch thread; a thread still running then ends later on its own.\<close>

definition cm_cleanup :: "ContextManager \<Rightarrow> ContextManager" where
  "cm_cleanup s = s\<lparr>fetch_thread := None\<rparr>"

datatype cm_event =
    FetchAsync CommandMode window_info
  | FetchEnds nat engine_answers
  | Cleanup

fun cm_step :: "cm_event \<Rightarrow> ContextManager \<Rightarrow> ContextManager" where
  "cm_step (FetchAsync m wi) s = fetch_context_async m wi s"
| "cm_step (FetchEnds t eng) s = fetch_target_finish t eng s"
| "cm_step Cleanup s = cm_cleanup s"

definition cm_run :: "cm_event list \<Rightarrow> ContextManager \<Rightarrow> ContextManager" where
  "cm_run es s = fold cm_step es s"

text \<open>A manager with a dictation fetch for TextEdit in flight, and answers of the engine.\<close>

definition fetching_manager :: ContextManager where
  "fetching_manager = cm_run [FetchAsync DICTATION (Some (Some ''TextEdit''))] new_ContextManager"

definition example_answers :: engine_answers where
  "example_answers =
     \<lparr>focused_cursor_context = Inr (Some ''Hello''), full_app_context = Inr (Some ''Page'')\<rparr>"

section \<open>AudioRecorder (\<^verbatim>\<open>src/audio/audio_recorder.py\<close>)\<close>

text \<open>
  A chunk is a block of 16-bit samples. The state has the fields of the class, the
  \<^verbatim>\<open>audio_detected_callback\<close> slot of the audio handler, the recorder's threads that are
  alive, and the next unused thread number. \<^verbatim>\<open>_watchdog_stop_event\<close> is \<^verbatim>\<open>None\<close> or an event
  that is clear or set. The callback type is a parameter.
\<close>

type_synonym chunk = "int list"

record 'cb AudioRecorder =
  is_recording_flag :: bool
  stop_event :: bool
  audio_queue :: "chunk list"
  recording_thread :: "nat option"
  monitor_thread :: "nat option"
  audio_buffer :: "bytes option"
  processing_callback :: "'cb option"
  watchdog_thread :: "nat option"
  watchdog_stop_event :: "bool option"
  watchdog_timeout_sec :: real
  audio_detected :: bool
  audio_detected_callback_attached :: bool
  live_threads :: "nat list"
  next_thread :: nat

definition new_AudioRecorder :: "'cb AudioRecorder" where
  "new_AudioRecorder =
     \<lparr>is_recording_flag = False, stop_event = False, audio_queue = [],
      recording_thread = None, monitor_thread = None, audio_buffer = None,
      processing_callback = None, watchdog_thread = None, watchdog_stop_event = None,
      watchdog_timeout_sec = 5.0, audio_detected = False,
      audio_detected_callback_attached = False, live_threads = [], next_thread = 0\<rparr>"

definition is_recording :: "'cb AudioRecorder \<Rightarrow> bool" where
  "is_recording s = is_recording_flag s"

definition ar_update_status :: "string \<Rightarrow> status_queue \<Rightarrow> status_queue" where
  "ar_update_status message sq = put_status (Str message) sq"

definition thread_alive :: "nat \<Rightarrow> 'cb AudioRecorder \<Rightarrow> bool" where
  "thread_alive t s = (t \<in> set (live_threads s))"

definition end_thread :: "nat \<Rightarrow> 'cb AudioRecorder \<Rightarrow> 'cb AudioRecorder" where
  "end_thread t s = s\<lparr>live_threads := removeAll t (live_threads s)\<rparr>"

text \<open>
  An exception leaves a method at the point where it is raised; a function that can raise
  returns what was raised, if anything, together with the state reached.
\<close>

datatype exn = RuntimeError string | AttributeError string

datatype 'a outcome = Return 'a | Raise exn

text \<open>
  \<^verbatim>\<open>_stop_watchdog\<close>, run by thread \<open>caller\<close> (\<open>None\<close> for a thread that is none of the
  recorder's own). \<^verbatim>\<open>Thread.join\<close> raises \<^verbatim>\<open>RuntimeError\<close> when a thread joins itself; joining
  another thread only waits.
\<close>

definition stop_watchdog :: "nat option \<Rightarrow> 'cb AudioRecorder \<Rightarrow> exn option \<times> 'cb AudioRecorder" where
  "stop_watchdog caller s =
     (let s1 = (case watchdog_stop_event s of
                  None \<Rightarrow> s
                | Some e \<Rightarrow> s\<lparr>watchdog_stop_event := Some True\<rparr>)
      in case watchdog_thread s1 of
           None \<Rightarrow> (None, s1\<lparr>watchdog_thread := None, watchdog_stop_event := None\<rparr>)
         | Some t \<Rightarrow>
             if thread_alive t s1 \<and> caller = Some t
             then (Some (RuntimeError ''cannot join current thread''), s1)
             else (None, s1\<lparr>watchdog_thread := None, watchdog_stop_event := None\<rparr>))"

definition start_watchdog :: "nat option \<Rightarrow> 'cb AudioRecorder \<Rightarrow> exn option \<times> 'cb AudioRecorder" where
  "start_watchdog caller s =
     (case stop_watchdog caller s of
        (Some e, s1) \<Rightarrow> (Some e, s1)
      | (None, s1) \<Rightarrow>
          (None,
           s1\<lparr>watchdog_stop_event := Some False,
              watchdog_thread := Some (next_thread s1),
              live_threads := live_threads s1 @ [next_thread s1],
              next_thread := Suc (next_thread s1)\<rparr>))"

text \<open>
  \<^verbatim>\<open>start_recording\<close>, run by thread \<open>caller\<close>. The first test, under the lock, is the
  recording flag; the flag is set last, after the three threads have been started.
\<close>

definition start_recording ::
  "'cb \<Rightarrow> real option \<Rightarrow> nat option \<Rightarrow> 'cb AudioRecorder \<times> status_queue \<Rightarrow>
   bool outcome \<times> 'cb AudioRecorder \<times> status_queue" where
  "start_recording callback start_time caller w =
     (case w of (s, sq) \<Rightarrow>
        if is_recording_flag s then (Return False, s, sq)
        else
          (let s1 = s\<lparr>stop_event := False, audio_buffer := None,
                      processing_callback := Some callback, audio_detected := False,
                      audio_queue := [], audio_detected_callback_attached := True\<rparr>;
               sq1 = ar_update_status (status_value RECORDING) sq;
               s2 = s1\<lparr>recording_thread := Some (next_thread s1),
                       monitor_thread := Some (Suc (next_thread s1)),
                       live_threads := live_threads s1 @ [next_thread s1, Suc (next_thread s1)],
                       next_thread := Suc (Suc (next_thread s1))\<rparr>
           in case start_watchdog caller s2 of
                (Some e, s3) \<Rightarrow> (Raise e, s3, sq1)
              | (None, s3) \<Rightarrow> (Return True, s3\<lparr>is_recording_flag := True\<rparr>, sq1)))"

text \<open>\<^verbatim>\<open>notify_audio_detected\<close>, and the recording thread putting one chunk on the queue.\<close>

definition notify_audio_detected :: "'cb AudioRecorder \<Rightarrow> 'cb AudioRecorder" where
  "notify_audio_detected s = (if \<not> audio_detected s then s\<lparr>audio_detected := True\<rparr> else s)"

definition record_chunk :: "chunk \<Rightarrow> 'cb AudioRecorder \<Rightarrow> 'cb AudioRecorder" where
  "record_chunk data s =
     (if stop_event s \<or> data = [] then s
      else (let s1 = (if audio_detected_callback_attached s then notify_audio_detected s else s)
            in s1\<lparr>audio_queue := audio_queue s1 @ [data]\<rparr>))"

text \<open>\<^verbatim>\<open>stop_recording\<close>, run by thread \<open>caller\<close>.\<close>

definition stop_recording :: "nat option \<Rightarrow> 'cb AudioRecorder \<Rightarrow> exn option \<times> 'cb AudioRecorder" where
  "stop_recording caller s =
     (if is_recording s then stop_watchdog caller (s\<lparr>stop_event := True\<rparr>) else (None, s))"

text \<open>
  \<^verbatim>\<open>_watchdog_target\<close>, run by thread \<open>self\<close>. The loop reads the clock once per round; the
  list holds the readings of the rounds to come, and between two rounds of this function
  nothing else touches the recorder. The result says how the thread left the loop, or that
  it is still in it when the readings are used up.
\<close>

datatype watchdog_exit =
    StillWatching
  | StoppedByEvent
  | RecordingStopped
  | AudioWasDetected
  | TimedOut "exn option"
  | Crashed exn

fun watchdog_target ::
  "nat \<Rightarrow> real \<Rightarrow> real list \<Rightarrow> 'cb AudioRecorder \<times> status_queue \<Rightarrow>
   watchdog_exit \<times> 'cb AudioRecorder \<times> status_queue" where
  "watchdog_target self start_time [] w = (StillWatching, w)"
| "watchdog_target self start_time (now # later) w =
     (case w of (s, sq) \<Rightarrow>
        (case watchdog_stop_event s of
           None \<Rightarrow> (Crashed (AttributeError ''is_set''), end_thread self s, sq)
         | Some True \<Rightarrow> (StoppedByEvent, end_thread self s, sq)
         | Some False \<Rightarrow>
             if \<not> is_recording s then (RecordingStopped, end_thread self s, sq)
             else if audio_detected s then (AudioWasDetected, end_thread self s, sq)
             else if now - start_time > watchdog_timeout_sec s then
               (let sq1 = ar_update_status (status_value ERROR_RECORDING) sq;
                    r = stop_recording (Some self) s
                in (TimedOut (fst r), end_thread self (snd r), sq1))
             else watchdog_target self start_time later (s, sq)))"

text \<open>
  \<^verbatim>\<open>_monitor_target\<close>, run by thread \<open>self\<close>. It waits for the stop event; before that the
  function changes nothing. \<open>encode\<close> stands for \<^verbatim>\<open>np.concatenate\<close> followed by
  \<^verbatim>\<open>save_wav_to_buffer\<close>: an exception, \<^verbatim>\<open>None\<close>, or the buffer. The callback and its argument
  are returned to be run by the caller; an exception of the callback is caught there.
\<close>

definition monitor_target ::
  "nat \<Rightarrow> (chunk list \<Rightarrow> string + bytes option) \<Rightarrow> 'cb AudioRecorder \<times> status_queue \<Rightarrow>
   ('cb \<times> bytes option) option \<times> 'cb AudioRecorder \<times> status_queue" where
  "monitor_target self encode w =
     (case w of (s, sq) \<Rightarrow>
        if \<not> stop_event s then (None, s, sq)
        else
          (case stop_watchdog (Some self) s of
             (Some e, s1) \<Rightarrow> (None, end_thread self s1, sq)
           | (None, s1) \<Rightarrow>
               (let callback_to_call = processing_callback s1;
                    chunks = audio_queue s1;
                    s2 = s1\<lparr>is_recording_flag := False, audio_queue := []\<rparr>;
                    r = (if chunks \<noteq> [] then
                           (case encode chunks of
                              Inl e \<Rightarrow> (None, ar_update_status (status_value ERROR_RECORDING) sq)
                            | Inr None \<Rightarrow> (None, ar_update_status (status_value ERROR_RECORDING) sq)
                            | Inr (Some b) \<Rightarrow> (Some b, sq))
                         else (None, ar_update_status (status_value READY) sq))
                in (case callback_to_call of
                      None \<Rightarrow> None
                    | Some c \<Rightarrow> Some (c, fst r),
                    end_thread self s2, snd r))))"

text \<open>
  The state \<^verbatim>\<open>start_recording\<close> leaves when it starts a session from \<open>s\<close>: the recording
  thread, the monitor thread and the watchdog thread get the next three thread numbers.
\<close>

definition started :: "'cb \<Rightarrow> 'cb AudioRecorder \<Rightarrow> 'cb AudioRecorder" where
  "started callback s =
     s\<lparr>stop_event := False, audio_buffer := None, processing_callback := Some callback,
       audio_detected := False, audio_queue := [], audio_detected_callback_attached := True,
       recording_thread := Some (next_thread s),
       monitor_thread := Some (Suc (next_thread s)),
       watchdog_thread := Some (Suc (Suc (next_thread s))),
       watchdog_stop_event := Some False,
       live_threads := live_threads s @
         [next_thread s, Suc (next_thread s), Suc (Suc (next_thread s))],
       next_thread := Suc (Suc (Suc (next_thread s))),
       is_recording_flag := True\<rparr>"

text \<open>A session with callback 1 and two buffered chunks, for the examples.\<close>

definition recording_example :: "nat AudioRecorder" where
  "recording_example =
     record_chunk [3] (record_chunk [1, 2]
       (fst (snd (start_recording 1 None None (new_AudioRecorder, empty_queue)))))"

definition no_encoder :: "chunk list \<Rightarrow> string + bytes option" where
  "no_encoder chunks = Inr None"

section \<open>KeyboardManager (\<^verbatim>\<open>src/keyboard/keyboard_manager.py\<close>)\<close>

text \<open>
  \<^verbatim>\<open>str.split(sep)\<close> for a separator of one character: every occurrence of the separator ends
  a field, so a string with \<open>n\<close> separators has \<open>n + 1\<close> fields, empty ones included.
\<close>

fun str_split :: "char \<Rightarrow> string \<Rightarrow> string list" where
  "str_split sep [] = [[]]"
| "str_split sep (c # cs) =
     (if c = sep then [] # str_split sep cs
      else (case str_split sep cs of
              [] \<Rightarrow> [[c]]
            | w # ws \<Rightarrow> (c # w) # ws))"

text \<open>
  A dictionary keyed by command mode is a list of entries in insertion order. Two
  dictionaries are equal in Python when they hold the same value under every key, whatever
  the order.
\<close>

type_synonym 'v mode_dict = "(CommandMode \<times> 'v) list"

definition dict_eq :: "'v mode_dict \<Rightarrow> 'v mode_dict \<Rightarrow> bool" where
  "dict_eq a b = list_all (\<lambda>m. map_of a m = map_of b m) [DICTATION, ACTION]"

text \<open>The signals the manager emits.\<close>

datatype signal =
    HotkeyPressed CommandMode
  | HotkeyReleased "CommandMode option"
  | ListenerStatusChanged bool string

text \<open>
  The fields of the manager that hotkey handling reads or writes, and the signals emitted so
  far. A key is named by its symbol, the result of \<^verbatim>\<open>get_key_symbol\<close>; a time is a number
  of seconds. The analytics calls that follow an emitted signal do not touch the manager
  and are left out.
\<close>

record KeyboardManager =
  target_hotkeys :: "string set mode_dict option"
  hotkey_strs :: "string mode_dict option"
  key_press_times :: "string \<rightharpoonup> real"
  was_hotkey_pressed :: bool
  active_mode :: "CommandMode option"
  is_hotkey_paused :: bool
  pressed_keys :: "string set"
  signals :: "signal list"

definition new_KeyboardManager :: KeyboardManager where
  "new_KeyboardManager =
     \<lparr>target_hotkeys = None, hotkey_strs = None, key_press_times = Map.empty,
      was_hotkey_pressed = False, active_mode = None, is_hotkey_paused = False,
      pressed_keys = {}, signals = []\<rparr>"

text \<open>
  \<^verbatim>\<open>set_hotkeys\<close>. With string values the body of the \<^verbatim>\<open>try\<close> cannot raise, so the result is
  always True.
\<close>

definition set_hotkeys :: "string mode_dict \<Rightarrow> KeyboardManager \<Rightarrow> bool \<times> KeyboardManager" where
  "set_hotkeys hotkeys s =
     (if (case hotkey_strs s of None \<Rightarrow> False | Some h \<Rightarrow> dict_eq h hotkeys) then (True, s)
      else
        (True,
         s\<lparr>hotkey_strs := Some hotkeys,
           target_hotkeys :=
             Some (map (\<lambda>(mode, hotkey_str). (mode, set (str_split CHR ''+'' hotkey_str)))
                       hotkeys)\<rparr>))"

text \<open>\<^verbatim>\<open>get_pressed_keys\<close>: the held symbols, sorted, cut to the first three.\<close>

definition get_pressed_keys :: "KeyboardManager \<Rightarrow> string list" where
  "get_pressed_keys s = take 3 (sorted_list_of_set (pressed_keys s))"

text \<open>
  \<^verbatim>\<open>check_hotkey_match\<close>: nothing without targets or while paused; otherwise the mode of the
  first entry whose key set equals the set of the symbols \<^verbatim>\<open>get_pressed_keys\<close> returns.
\<close>

definition check_hotkey_match :: "KeyboardManager \<Rightarrow> CommandMode option" where
  "check_hotkey_match s =
     (case target_hotkeys s of
        None \<Rightarrow> None
      | Some targets \<Rightarrow>
          if targets = [] \<or> is_hotkey_paused s then None
          else map_option fst
                 (find (\<lambda>(mode, hotkey). set (get_pressed_keys s) = hotkey) targets))"




text \<open>
  The release of an active hotkey that both branches of \<^verbatim>\<open>_on_release\<close> perform. In the
  \<^verbatim>\<open>fn\<close> branch the analytics event is built from \<^verbatim>\<open>released_mode.value\<close> without a test, so
  a missing mode raises there and the handler reports it.
\<close>

definition emit_release :: "bool \<Rightarrow> KeyboardManager \<Rightarrow> KeyboardManager" where
  "emit_release fn_branch s =
     (let released_mode = active_mode s;
          s1 = s\<lparr>was_hotkey_pressed := False,
                 signals := signals s @ [HotkeyReleased released_mode],
                 active_mode := None\<rparr>
      in if fn_branch \<and> released_mode = None
         then s1\<lparr>signals := signals s1 @
                [ListenerStatusChanged False
                   (''Error in _on_release: '' @ [CHR 0x27] @ ''NoneType'' @ [CHR 0x27] @
                    '' object has no attribute '' @ [CHR 0x27] @ ''value'' @ [CHR 0x27])]\<rparr>
         else s1)"

text \<open>\<^verbatim>\<open>_on_release\<close> for the key with symbol \<open>k\<close> at time \<open>now\<close>.\<close>

definition on_release :: "string \<Rightarrow> real \<Rightarrow> KeyboardManager \<Rightarrow> KeyboardManager" where
  "on_release k now s =
     (if k = ''fn'' then
        (if k \<notin> pressed_keys s then
           (let s1 = s\<lparr>pressed_keys := insert k (pressed_keys s)\<rparr>
            in case check_hotkey_match s1 of
                 None \<Rightarrow> s1\<lparr>key_press_times := (key_press_times s1)(k \<mapsto> now)\<rparr>
               | Some mode_match \<Rightarrow>
                   if \<not> was_hotkey_pressed s1
                   then s1\<lparr>was_hotkey_pressed := True, active_mode := Some mode_match,
                           signals := signals s1 @ [HotkeyPressed mode_match]\<rparr>
                   else s1\<lparr>key_press_times := (key_press_times s1)(k \<mapsto> now)\<rparr>)
         else
           (let s1 = s\<lparr>pressed_keys := pressed_keys s - {k},
                       key_press_times := (key_press_times s)(k := None)\<rparr>
            in if was_hotkey_pressed s1 then emit_release True s1 else s1))
      else
        (let s1 = s\<lparr>pressed_keys := pressed_keys s - {k},
                    key_press_times := (key_press_times s)(k := None)\<rparr>
         in if was_hotkey_pressed s1 \<and> check_hotkey_match s1 = None
            then emit_release False s1 else s1))"






text \<open>The configured key sets, none before the first \<^verbatim>\<open>set_hotkeys\<close>.\<close>

definition targets_of :: "KeyboardManager \<Rightarrow> string set mode_dict" where
  "targets_of s = (case target_hotkeys s of None \<Rightarrow> [] | Some targets \<Rightarrow> targets)"


text \<open>
  Managers for the examples: one configured with \<^verbatim>\<open>fn\<close> and \<^verbatim>\<open>ctrl+shift+a\<close>, the same after
  shift, a and ctrl have been pressed, and one configured with a combination of four keys.
\<close>

definition configured_manager :: KeyboardManager where
  "configured_manager =
     snd (set_hotkeys [(DICTATION, ''fn''), (ACTION, ''ctrl+shift+a'')] new_KeyboardManager)"



section \<open>DiscreteApplicationRunner (\<^verbatim>\<open>src/discrete_application_runner.py\<close>)\<close>

text \<open>
  Modelled from the spec: \<^verbatim>\<open>ApplicationAction\<close> is declared in \<^verbatim>\<open>src/types/actions.py\<close>,
  which is not among the sources at hand. The runner uses two members, \<^verbatim>\<open>START\<close>, queued
  on a press that is not rejected, and \<^verbatim>\<open>STOP\<close>, queued on release: the press and the
  release of the orchestrator's state machine. An entry of the action queue is an action
  with the start time that \<^verbatim>\<open>run\<close> unpacks (none for \<^verbatim>\<open>STOP\<close>). The only callback the
  runner hands to the recorder is its own \<^verbatim>\<open>_process_recorded_audio\<close>.
\<close>

datatype ApplicationAction = START | STOP

datatype runner_callback = ProcessRecordedAudio

record Runner =
  context_manager :: ContextManager
  command_processor :: CommandProcessor
  audio_recorder :: "runner_callback AudioRecorder"
  runner_mode :: CommandMode
  action_queue :: "(ApplicationAction \<times> real option) list"

definition new_Runner :: Runner where
  "new_Runner =
     \<lparr>context_manager = new_ContextManager, command_processor = new_CommandProcessor,
      audio_recorder = new_AudioRecorder, runner_mode = default_mode, action_queue = []\<rparr>"

text \<open>
  \<^verbatim>\<open>_update_status\<close> of the runner: an enum member is put as its value, a string as it is
  (both branches of the match against \<^verbatim>\<open>from_custom_message\<close> put the string itself).
\<close>

definition runner_update_status :: "status_item \<Rightarrow> status_queue \<Rightarrow> status_queue" where
  "runner_update_status status sq =
     put_status (Str (case status of Member m \<Rightarrow> status_value m | Str text \<Rightarrow> text)) sq"

text \<open>\<^verbatim>\<open>trigger_interaction\<close>: the two rejections, then the queued start action.\<close>

definition trigger_interaction ::
  "CommandMode \<Rightarrow> real option \<Rightarrow> Runner \<times> status_queue \<Rightarrow> Runner \<times> status_queue" where
  "trigger_interaction mode start_time w =
     (case w of (r, sq) \<Rightarrow>
        (let p = is_processing (command_processor r);
             r1 = r\<lparr>command_processor := snd p\<rparr>
         in if fst p then (r1, runner_update_status (Member PROCESSING_BUSY) sq)
            else if is_recording (audio_recorder r1)
            then (r1, runner_update_status (Member ALREADY_RECORDING) sq)
            else (r1\<lparr>action_queue := action_queue r1 @ [(START, start_time)],
                     runner_mode := mode\<rparr>,
                  runner_update_status (Member HOTKEY_PRESSED) sq)))"

definition stop_interaction :: "Runner \<Rightarrow> Runner" where
  "stop_interaction r = r\<lparr>action_queue := action_queue r @ [(STOP, None)]\<rparr>"

text \<open>
  \<^verbatim>\<open>_handle_start_recording\<close>, on the thread of the event loop, which is none of the
  recorder's threads. \<open>active_window_info\<close> is what the platform answers inside
  \<^verbatim>\<open>fetch_context_async\<close>. The result of \<^verbatim>\<open>start_recording\<close> is only logged, and an exception
  would be caught by the loop.
\<close>

definition handle_start_recording ::
  "real option \<Rightarrow> window_info \<Rightarrow> Runner \<times> status_queue \<Rightarrow> Runner \<times> status_queue" where
  "handle_start_recording start_time active_window_info w =
     (case w of (r, sq) \<Rightarrow>
        (let cm = fetch_context_async (runner_mode r) active_window_info (context_manager r);
             a = start_recording ProcessRecordedAudio start_time None (audio_recorder r, sq)
         in (r\<lparr>context_manager := cm, audio_recorder := fst (snd a)\<rparr>, snd (snd a))))"

definition handle_stop_recording :: "Runner \<times> status_queue \<Rightarrow> Runner \<times> status_queue" where
  "handle_stop_recording w =
     (case w of (r, sq) \<Rightarrow>
        (r\<lparr>audio_recorder := snd (stop_recording None (audio_recorder r))\<rparr>, sq))"

text \<open>One round of the loop in \<^verbatim>\<open>run\<close>: the oldest queued action, if any, is handled.\<close>

definition run_iteration :: "window_info \<Rightarrow> Runner \<times> status_queue \<Rightarrow> Runner \<times> status_queue" where
  "run_iteration active_window_info w =
     (case w of (r, sq) \<Rightarrow>
        (case action_queue r of
           [] \<Rightarrow> (r, sq)
         | (action, start_time) # rest \<Rightarrow>
             (case action of
                START \<Rightarrow> handle_start_recording start_time active_window_info
                           (r\<lparr>action_queue := rest\<rparr>, sq)
              | STOP \<Rightarrow> handle_stop_recording (r\<lparr>action_queue := rest\<rparr>, sq))))"

text \<open>
  The argument of the completion callback: \<^verbatim>\<open>None\<close>, a \<^verbatim>\<open>bytes\<close> object, an object with
  \<^verbatim>\<open>getbuffer\<close> (the \<^verbatim>\<open>BytesIO\<close> that \<^verbatim>\<open>save_wav_to_buffer\<close> returns), or anything else. The
  emptiness test of \<^verbatim>\<open>_process_recorded_audio\<close> follows.
\<close>

datatype audio_arg = NoBuffer | BytesObject bytes | BufferObject bytes | OtherObject

fun is_empty :: "audio_arg \<Rightarrow> bool" where
  "is_empty NoBuffer = True"
| "is_empty (BytesObject b) = (length b = 0)"
| "is_empty (BufferObject b) = (length b = 0)"
| "is_empty OtherObject = False"

text \<open>What the transcription service does: it raises, or returns a string or \<^verbatim>\<open>None\<close>.\<close>

datatype asr_answer = AsrRaises string | AsrReturns "string option"

text \<open>\<^verbatim>\<open>not user_text_command or not user_text_command.strip()\<close>.\<close>

definition transcript_empty :: "string option \<Rightarrow> bool" where
  "transcript_empty t = (case t of None \<Rightarrow> True | Some text \<Rightarrow> blank text)"

text \<open>
  \<^verbatim>\<open>_process_recorded_audio\<close>, with \<open>recorded_audio\<close> for its argument \<^verbatim>\<open>audio_buffer\<close>.
  \<open>join_result\<close> is the environment's answer to the join inside
  \<^verbatim>\<open>wait_for_context\<close>. An empty transcript raises \<^verbatim>\<open>ValueError("Transcription empty")\<close>
  inside the \<^verbatim>\<open>try\<close>, which the handler reports like any other exception of the
  transcription.
\<close>

definition process_recorded_audio ::
  "audio_arg \<Rightarrow> asr_answer \<Rightarrow> engine_answers option \<Rightarrow> Runner \<times> status_queue \<Rightarrow>
   Runner \<times> status_queue" where
  "process_recorded_audio recorded_audio asr join_result w =
     (case w of (r, sq) \<Rightarrow>
        if is_empty recorded_audio then (r, sq)
        else
          (let sq1 = runner_update_status (Member TRANSCRIBING) sq
           in case asr of
                AsrRaises e \<Rightarrow> (r, runner_update_status (Str (''Error: '' @ e)) sq1)
              | AsrReturns t \<Rightarrow>
                  (case t of
                     None \<Rightarrow>
                       (r, runner_update_status (Str (''Error: '' @ ''Transcription empty'')) sq1)
                   | Some user_text_command \<Rightarrow>
                       if blank user_text_command
                       then (r, runner_update_status
                                  (Str (''Error: '' @ ''Transcription empty'')) sq1)
                       else
                         (let sq2 = runner_update_status
                                (Str (''Transcribed: '' @ [CHR 0x27] @
                                      take 40 user_text_command @ [CHR 0x27])) sq1;
                              cm = snd (snd (wait_for_context 5.0 join_result (context_manager r)));
                              current_context_data = get_current_context cm;
                              p = process_command current_context_data user_text_command None
                                    (Some (runner_mode r)) (command_processor r, sq2)
                          in (r\<lparr>context_manager := cm, command_processor := fst (snd p)\<rparr>,
                              snd (snd p))))))"

text \<open>The callback argument the recorder's monitor thread passes on.\<close>

definition callback_arg :: "bytes option \<Rightarrow> audio_arg" where
  "callback_arg b = (case b of None \<Rightarrow> NoBuffer | Some data \<Rightarrow> BufferObject data)"

text \<open>Runners for the examples: one whose recorder is in a session, one whose processor is busy.\<close>

definition recording_runner :: Runner where
  "recording_runner = fst (run_iteration (Some (Some ''TextEdit''))
     (trigger_interaction DICTATION None (new_Runner, empty_queue)))"


section \<open>Properties of the command processor\<close>











lemma busy_processor_eq:
  "busy_processor =
    (\<lparr>is_processing_flag = True, processing_thread = Some 0,
      workers = [(0, \<lparr>w_context = example_context, w_command = ''select all and bold'',
                     w_mode = Some DICTATION, w_audio = None\<rparr>)],
      timers = [], next_worker = Suc 0\<rparr>, empty_queue)"
  by (simp add: busy_processor_def cp_run_def process_command_def new_CommandProcessor_def
      blank_def strip_def isspace_def)



section \<open>Properties of the context manager\<close>








text \<open>
  Claim C10. When no fetch is in flight and the active window cannot be determined (no
  window information, no application name in it, or an empty one), \<^verbatim>\<open>fetch_context_async\<close>
  resets the snapshot to application \<^verbatim>\<open>"Unknown"\<close> with both context fields absent, starts
  no thread and leaves \<^verbatim>\<open>_fetch_thread\<close> as it was; \<^verbatim>\<open>wait_for_context\<close> called next returns
  no primary context without blocking in \<^verbatim>\<open>join\<close>, whatever its timeout, and changes nothing.
\<close>

theorem undetermined_window_starts_no_fetch:
  assumes "\<not> fetch_in_flight s" and "window_app_name wi = None"
  shows "get_current_context (fetch_context_async m wi s) =
           \<lparr>app_name = Some ''Unknown'', primary_context = None, page_context = None\<rparr> \<and>
         fetchers (fetch_context_async m wi s) = fetchers s \<and>
         fetch_thread (fetch_context_async m wi s) = fetch_thread s \<and>
         next_fetcher (fetch_context_async m wi s) = next_fetcher s \<and>
         wait_for_context timeout join_result (fetch_context_async m wi s) =
           (None, False, fetch_context_async m wi s)"
proof -
  let ?s' = "fetch_context_async m wi s"
  from assms have eq: "?s' = s\<lparr>current_context := unknown_context\<lparr>app_name := Some ''Unknown''\<rparr>\<rparr>"
    by (simp add: fetch_context_async_def)
  have nf: "\<not> fetch_in_flight ?s'"
    using assms(1) by (simp add: eq fetch_in_flight_def fetcher_alive_def split: option.splits)
  have w: "wait_for_context timeout join_result ?s' = (primary_context (current_context ?s'), False, ?s')"
    using nf by (auto simp: wait_for_context_def fetch_in_flight_def split: option.splits)
  show ?thesis
    unfolding w by (simp add: eq get_current_context_def unknown_context_def)
qed

text \<open>
  The theorem of claim C10 on a fresh manager with no window information, and on a manager
  whose earlier fetch has ended, with an empty application name.
\<close>

theorem undetermined_window_starts_no_fetch_witness:
  "\<not> fetch_in_flight new_ContextManager \<and> window_app_name None = None \<and>
   get_current_context (fetch_context_async DICTATION None new_ContextManager) =
     \<lparr>app_name = Some ''Unknown'', primary_context = None, page_context = None\<rparr> \<and>
   fetchers (fetch_context_async DICTATION None new_ContextManager) = [] \<and>
   wait_for_context 5 (Some example_answers) (fetch_context_async DICTATION None new_ContextManager) =
     (None, False, fetch_context_async DICTATION None new_ContextManager)"
proof -
  have a: "\<not> fetch_in_flight new_ContextManager"
    by (simp add: fetch_in_flight_def new_ContextManager_def)
  have b: "window_app_name None = None"
    by (simp add: window_app_name_def)
  from undetermined_window_starts_no_fetch [OF a b, of DICTATION 5 "Some example_answers"]
  show ?thesis using a b by (simp add: new_ContextManager_def)
qed

section \<open>Properties of the audio recorder\<close>

text \<open>
  Claim C6. While a recording is in progress, \<^verbatim>\<open>start_recording\<close> returns False and
  changes nothing: the recorder's state and the status queue are returned as they were, in
  particular the buffered chunks, the stop event, the processing callback and the recording
  flag of the first session.
\<close>

theorem second_start_recording_rejected:
  assumes "is_recording s"
  shows "start_recording callback start_time caller (s, sq) = (Return False, s, sq) \<and>
     audio_queue (fst (snd (start_recording callback start_time caller (s, sq)))) = audio_queue s \<and>
     stop_event (fst (snd (start_recording callback start_time caller (s, sq)))) = stop_event s \<and>
     processing_callback (fst (snd (start_recording callback start_time caller (s, sq)))) =
       processing_callback s \<and>
     is_recording (fst (snd (start_recording callback start_time caller (s, sq))))"
  using assms by (simp add: start_recording_def is_recording_def)

lemma recording_example_eq:
  "recording_example =
     (started 1 new_AudioRecorder)\<lparr>audio_detected := True, audio_queue := [[1, 2], [3]]\<rparr>"
  by (simp add: recording_example_def start_recording_def start_watchdog_def stop_watchdog_def
      started_def new_AudioRecorder_def record_chunk_def notify_audio_detected_def Let_def)

text \<open>
  The theorem of claim C6 on a session started with callback 1 that has buffered two chunks:
  a second start with callback 2 returns False and the chunks and the callback stay.
\<close>

theorem second_start_recording_rejected_witness:
  "is_recording recording_example \<and>
   start_recording 2 (Some 10) None (recording_example, empty_queue) =
     (Return False, recording_example, empty_queue) \<and>
   audio_queue (fst (snd (start_recording 2 (Some 10) None (recording_example, empty_queue)))) =
     [[1, 2], [3]] \<and>
   processing_callback (fst (snd (start_recording 2 (Some 10) None (recording_example, empty_queue)))) =
     Some 1"
proof -
  have r: "is_recording recording_example"
    by (simp add: recording_example_eq is_recording_def started_def)
  have f: "audio_queue recording_example = [[1, 2], [3]]"
    "processing_callback recording_example = Some 1"
    by (simp_all add: recording_example_eq started_def)
  from second_start_recording_rejected [OF r, of 2 "Some 10" None empty_queue] r f
  show ?thesis by simp
qed


lemma watchdog_waits:
  "watchdog_stop_event s = Some False \<Longrightarrow> is_recording s \<Longrightarrow> \<not> audio_detected s \<Longrightarrow>
   \<forall>t \<in> set ts. t - start \<le> watchdog_timeout_sec s \<Longrightarrow>
   watchdog_target self start ts (s, sq) = (StillWatching, s, sq)"
  by (induction ts) auto

lemma watchdog_fires:
  "watchdog_stop_event s = Some False \<Longrightarrow> is_recording s \<Longrightarrow> \<not> audio_detected s \<Longrightarrow>
   \<exists>t \<in> set ts. t - start > watchdog_timeout_sec s \<Longrightarrow>
   watchdog_target self start ts (s, sq) =
     (TimedOut (fst (stop_recording (Some self) s)),
      end_thread self (snd (stop_recording (Some self) s)),
      ar_update_status (status_value ERROR_RECORDING) sq)"
  by (induction ts) (auto simp: Let_def)


lemma start_recording_idle:
  "\<not> is_recording s \<Longrightarrow>
   start_recording callback start_time None (s, sq) =
     (Return True, started callback s, ar_update_status (status_value RECORDING) sq)"
  by (simp add: start_recording_def is_recording_def start_watchdog_def stop_watchdog_def
      started_def Let_def split: option.splits)

lemma watchdog_self_stop:
  "stop_recording (Some (Suc (Suc (next_thread s)))) (started callback s) =
     (Some (RuntimeError ''cannot join current thread''),
      (started callback s)\<lparr>stop_event := True, watchdog_stop_event := Some True\<rparr>)"
  by (simp add: stop_recording_def stop_watchdog_def started_def is_recording_def
      thread_alive_def Let_def)

lemma monitor_after_watchdog:
  "monitor_target (Suc (next_thread s)) encode
     (end_thread (Suc (Suc (next_thread s)))
        ((started callback s)\<lparr>stop_event := True, watchdog_stop_event := Some True\<rparr>), sq) =
   (Some (callback, None),
    end_thread (Suc (next_thread s))
      ((end_thread (Suc (Suc (next_thread s))) (started callback s))
         \<lparr>stop_event := True, watchdog_stop_event := None,
          watchdog_thread := None, is_recording_flag := False\<rparr>),
    ar_update_status (status_value READY) sq)"
  by (simp add: monitor_target_def stop_watchdog_def started_def end_thread_def
      thread_alive_def Let_def)

lemma put_status_unbounded:
  "maxsize q = 0 \<Longrightarrow> put_status m (Some q) = Some (q\<lparr>items := items q @ [m]\<rparr>)"
  by (simp add: put_status_def put_nowait_def full_def)

text \<open>
  Claim C3. A session is started on a recorder that is not recording and has the watchdog
  timeout of 5 seconds, no chunk arrives and nobody stops it. As long as every clock
  reading of the watchdog is within 5 seconds of its start, the watchdog keeps polling and
  the session keeps recording. At the first reading more than 5 seconds after the start the
  watchdog puts the error status and calls \<^verbatim>\<open>stop_recording\<close>, which sets the stop event
  (and then fails joining its own thread); the monitor thread, released by the stop event,
  clears the recording flag, reports Ready and calls the callback with no buffer. On an
  unbounded status queue the session has put Recording, the error status and Ready, the
  error status exactly once.
\<close>

theorem watchdog_stops_silent_session:
  assumes idle: "\<not> is_recording s0"
    and tmo: "watchdog_timeout_sec s0 = 5"
    and st: "start_recording callback start_time None (s0, sq0) = (r, s1, sq1)"
    and wd: "watchdog_target (Suc (Suc (next_thread s0))) started_at readings (s1, sq1) = (x, s2, sq2)"
    and mn: "monitor_target (Suc (next_thread s0)) encode (s2, sq2) = (cb, s3, sq3)"
  shows "r = Return True \<and> is_recording s1 \<and> audio_queue s1 = [] \<and>
     watchdog_thread s1 = Some (Suc (Suc (next_thread s0))) \<and>
     monitor_thread s1 = Some (Suc (next_thread s0)) \<and>
     ((\<forall>t \<in> set readings. t - started_at \<le> 5) \<longrightarrow>
        x = StillWatching \<and> s2 = s1 \<and> sq2 = sq1 \<and> is_recording s3 \<and> sq3 = sq1) \<and>
     ((\<exists>t \<in> set readings. t - started_at > 5) \<longrightarrow>
        x = TimedOut (Some (RuntimeError ''cannot join current thread'')) \<and>
        stop_event s2 \<and> \<not> is_recording s3 \<and> cb = Some (callback, None) \<and>
        sq2 = ar_update_status (status_value ERROR_RECORDING) sq1 \<and>
        sq3 = ar_update_status (status_value READY) sq2 \<and>
        (\<forall>q. sq0 = Some q \<and> maxsize q = 0 \<longrightarrow>
           sq3 = Some (q\<lparr>items := items q @
             [Str ''Recording command...'', Str ''Error processing audio'', Str ''Ready'']\<rparr>) \<and>
           count_list (drop (length (items q)) (items (the sq3))) (Str ''Error processing audio'') = 1))"
proof -
  let ?wt = "Suc (Suc (next_thread s0))"
  from st idle have r: "r = Return True" and s1: "s1 = started callback s0"
    and sq1: "sq1 = ar_update_status (status_value RECORDING) sq0"
    by (simp_all add: start_recording_idle)
  have pre: "watchdog_stop_event s1 = Some False" "is_recording s1" "\<not> audio_detected s1"
    "watchdog_timeout_sec s1 = 5"
    using tmo by (simp_all add: s1 started_def is_recording_def)
  have basics: "audio_queue s1 = [] \<and> watchdog_thread s1 = Some ?wt \<and>
      monitor_thread s1 = Some (Suc (next_thread s0))"
    by (simp add: s1 started_def)
  have quiet: "(\<forall>t \<in> set readings. t - started_at \<le> 5) \<longrightarrow>
        x = StillWatching \<and> s2 = s1 \<and> sq2 = sq1 \<and> is_recording s3 \<and> sq3 = sq1"
  proof
    assume a: "\<forall>t \<in> set readings. t - started_at \<le> 5"
    with pre have "watchdog_target ?wt started_at readings (s1, sq1) = (StillWatching, s1, sq1)"
      by (simp add: watchdog_waits)
    with wd have e: "x = StillWatching" "s2 = s1" "sq2 = sq1" by simp_all
    have "\<not> stop_event s1" by (simp add: s1 started_def)
    with mn e have "s3 = s1" "sq3 = sq1" by (simp_all add: monitor_target_def)
    with e pre show "x = StillWatching \<and> s2 = s1 \<and> sq2 = sq1 \<and> is_recording s3 \<and> sq3 = sq1"
      by simp
  qed
  have fired: "(\<exists>t \<in> set readings. t - started_at > 5) \<longrightarrow>
        x = TimedOut (Some (RuntimeError ''cannot join current thread'')) \<and>
        stop_event s2 \<and> \<not> is_recording s3 \<and> cb = Some (callback, None) \<and>
        sq2 = ar_update_status (status_value ERROR_RECORDING) sq1 \<and>
        sq3 = ar_update_status (status_value READY) sq2 \<and>
        (\<forall>q. sq0 = Some q \<and> maxsize q = 0 \<longrightarrow>
           sq3 = Some (q\<lparr>items := items q @
             [Str ''Recording command...'', Str ''Error processing audio'', Str ''Ready'']\<rparr>) \<and>
           count_list (drop (length (items q)) (items (the sq3))) (Str ''Error processing audio'') = 1)"
  proof
    assume a: "\<exists>t \<in> set readings. t - started_at > 5"
    with pre have "watchdog_target ?wt started_at readings (s1, sq1) =
       (TimedOut (fst (stop_recording (Some ?wt) s1)),
        end_thread ?wt (snd (stop_recording (Some ?wt) s1)),
        ar_update_status (status_value ERROR_RECORDING) sq1)"
      by (simp add: watchdog_fires)
    with wd have x: "x = TimedOut (Some (RuntimeError ''cannot join current thread''))"
      and s2: "s2 = end_thread ?wt ((started callback s0)\<lparr>stop_event := True, watchdog_stop_event := Some True\<rparr>)"
      and sq2: "sq2 = ar_update_status (status_value ERROR_RECORDING) sq1"
      by (simp_all add: s1 watchdog_self_stop)
    from mn [unfolded s2 monitor_after_watchdog]
    have m: "cb = Some (callback, None)" "\<not> is_recording s3"
      "sq3 = ar_update_status (status_value READY) sq2"
      by (auto simp: is_recording_def end_thread_def)
    have se: "stop_event s2" by (simp add: s2 end_thread_def)
    have q: "\<forall>q. sq0 = Some q \<and> maxsize q = 0 \<longrightarrow>
           sq3 = Some (q\<lparr>items := items q @
             [Str ''Recording command...'', Str ''Error processing audio'', Str ''Ready'']\<rparr>) \<and>
           count_list (drop (length (items q)) (items (the sq3))) (Str ''Error processing audio'') = 1"
      by (auto simp: m sq2 sq1 ar_update_status_def put_status_unbounded)
    from x se m sq2 q show "x = TimedOut (Some (RuntimeError ''cannot join current thread'')) \<and>
        stop_event s2 \<and> \<not> is_recording s3 \<and> cb = Some (callback, None) \<and>
        sq2 = ar_update_status (status_value ERROR_RECORDING) sq1 \<and>
        sq3 = ar_update_status (status_value READY) sq2 \<and>
        (\<forall>q. sq0 = Some q \<and> maxsize q = 0 \<longrightarrow>
           sq3 = Some (q\<lparr>items := items q @
             [Str ''Recording command...'', Str ''Error processing audio'', Str ''Ready'']\<rparr>) \<and>
           count_list (drop (length (items q)) (items (the sq3))) (Str ''Error processing audio'') = 1)"
      by blast
  qed
  from r pre(2) basics quiet fired show ?thesis by blast
qed

text \<open>
  The theorem of claim C3 on a fresh recorder with callback 7 whose watchdog reads the clock
  0.1, 2.5, 5 and 5.1 seconds after its start.
\<close>

theorem watchdog_stops_silent_session_witness:
  "\<not> is_recording (new_AudioRecorder :: nat AudioRecorder) \<and>
   watchdog_timeout_sec (new_AudioRecorder :: nat AudioRecorder) = 5 \<and>
   (\<exists>t \<in> set [0.1, 2.5, 5, 5.1 :: real]. t - 0 > 5) \<and>
   \<not> is_recording (fst (snd (monitor_target 1 no_encoder
      (snd (watchdog_target 2 0 [0.1, 2.5, 5, 5.1]
        (snd (start_recording (7 :: nat) None None (new_AudioRecorder, empty_queue)))))))) \<and>
   snd (snd (monitor_target 1 no_encoder
      (snd (watchdog_target 2 0 [0.1, 2.5, 5, 5.1]
        (snd (start_recording (7 :: nat) None None (new_AudioRecorder, empty_queue))))))) =
     Some \<lparr>maxsize = 0, items =
       [Str ''Recording command...'', Str ''Error processing audio'', Str ''Ready'']\<rparr>"
proof -
  let ?s0 = "new_AudioRecorder :: nat AudioRecorder"
  let ?a = "start_recording (7 :: nat) None None (?s0, empty_queue)"
  let ?b = "watchdog_target 2 0 [0.1, 2.5, 5, 5.1] (snd ?a)"
  let ?c = "monitor_target 1 no_encoder (snd ?b)"
  have idle: "\<not> is_recording ?s0"
    by (simp add: is_recording_def new_AudioRecorder_def)
  have tmo: "watchdog_timeout_sec ?s0 = 5"
    by (simp add: new_AudioRecorder_def)
  have n: "next_thread ?s0 = 0"
    by (simp add: new_AudioRecorder_def)
  have late: "\<exists>t \<in> set [0.1, 2.5, 5, 5.1 :: real]. t - 0 > 5"
    by (rule bexI [of _ "5.1"]) simp_all
  have st: "?a = (fst ?a, fst (snd ?a), snd (snd ?a))" by simp
  have wd: "watchdog_target (Suc (Suc (next_thread ?s0))) 0 [0.1, 2.5, 5, 5.1]
      (fst (snd ?a), snd (snd ?a)) = (fst ?b, fst (snd ?b), snd (snd ?b))"
    by (simp add: n numeral_2_eq_2)
  have mn: "monitor_target (Suc (next_thread ?s0)) no_encoder (fst (snd ?b), snd (snd ?b)) =
      (fst ?c, fst (snd ?c), snd (snd ?c))"
    by (simp add: n)
  have sq: "snd (snd ?a) = Some \<lparr>maxsize = 0, items = [Str ''Recording command...'']\<rparr>"
    using idle
    by (simp add: start_recording_idle ar_update_status_def put_status_unbounded empty_queue_def)
  from watchdog_stops_silent_session [OF idle tmo st wd mn] late
  have nr: "\<not> is_recording (fst (snd ?c))"
    and e2: "snd (snd ?b) = ar_update_status (status_value ERROR_RECORDING) (snd (snd ?a))"
    and e3: "snd (snd ?c) = ar_update_status (status_value READY) (snd (snd ?b))"
    by blast+
  have "snd (snd ?c) = Some \<lparr>maxsize = 0, items =
        [Str ''Recording command...'', Str ''Error processing audio'', Str ''Ready'']\<rparr>"
    unfolding e3 e2 sq by (simp add: ar_update_status_def put_status_unbounded)
  with nr have "\<not> is_recording (fst (snd ?c)) \<and>
      snd (snd ?c) = Some \<lparr>maxsize = 0, items =
        [Str ''Recording command...'', Str ''Error processing audio'', Str ''Ready'']\<rparr>"
    by blast
  with late idle tmo show ?thesis by blast
qed
section \<open>Properties of the keyboard manager\<close>

lemma dict_eq_refl: "dict_eq h h"
  by (simp add: dict_eq_def)

lemma set_hotkeys_twice: "set_hotkeys h (snd (set_hotkeys h s)) = set_hotkeys h s"
  by (simp add: set_hotkeys_def dict_eq_refl)

lemma set_hotkeys_same:
  "hotkey_strs s = Some h0 \<Longrightarrow> dict_eq h0 h \<Longrightarrow> set_hotkeys h s = (True, s)"
  by (simp add: set_hotkeys_def)

text \<open>
  Claim C8. \<^verbatim>\<open>set_hotkeys\<close> always returns True, and calling it twice with the same
  configuration gives the same result and state as calling it once. When the stored
  configuration equals the new one as a dictionary, the call leaves the manager as it was,
  with the stored hotkey strings and the derived key-symbol sets unchanged.
\<close>

theorem set_hotkeys_idempotent:
  "set_hotkeys h (snd (set_hotkeys h s)) = set_hotkeys h s \<and>
   fst (set_hotkeys h s) = True \<and>
   (hotkey_strs s = Some h0 \<and> dict_eq h0 h \<longrightarrow>
      set_hotkeys h s = (True, s) \<and>
      hotkey_strs (snd (set_hotkeys h s)) = hotkey_strs s \<and>
      target_hotkeys (snd (set_hotkeys h s)) = target_hotkeys s)"
  using set_hotkeys_twice [of h s] set_hotkeys_same [of s h0 h]
  by (auto simp: set_hotkeys_def)







lemma targets_of_inner [simp]:
  "targets_of (s\<lparr>pressed_keys := p\<rparr>) = targets_of s"
  "targets_of (s\<lparr>pressed_keys := p, key_press_times := t\<rparr>) = targets_of s"
  by (simp_all add: targets_of_def)








lemma configured_manager_eq:
  "configured_manager =
     new_KeyboardManager
       \<lparr>hotkey_strs := Some [(DICTATION, ''fn''), (ACTION, ''ctrl+shift+a'')],
        target_hotkeys := Some [(DICTATION, {''fn''}), (ACTION, {''ctrl'', ''shift'', ''a''})]\<rparr>"
  by (simp add: configured_manager_def set_hotkeys_def new_KeyboardManager_def)

text \<open>
  The theorem of claim C8 on a manager configured with \<^verbatim>\<open>fn\<close> for dictation and
  \<^verbatim>\<open>ctrl+shift+a\<close> for action, set again with the same entries in the other order.
\<close>

theorem set_hotkeys_idempotent_witness:
  "hotkey_strs configured_manager = Some [(DICTATION, ''fn''), (ACTION, ''ctrl+shift+a'')] \<and>
   dict_eq [(DICTATION, ''fn''), (ACTION, ''ctrl+shift+a'')]
           [(ACTION, ''ctrl+shift+a''), (DICTATION, ''fn'')] \<and>
   set_hotkeys [(ACTION, ''ctrl+shift+a''), (DICTATION, ''fn'')] configured_manager =
     (True, configured_manager) \<and>
   target_hotkeys (snd (set_hotkeys [(ACTION, ''ctrl+shift+a''), (DICTATION, ''fn'')]
     configured_manager)) = Some [(DICTATION, {''fn''}), (ACTION, {''ctrl'', ''shift'', ''a''})]"
proof -
  have a: "hotkey_strs configured_manager = Some [(DICTATION, ''fn''), (ACTION, ''ctrl+shift+a'')]"
    by (simp add: configured_manager_eq)
  have b: "dict_eq [(DICTATION, ''fn''), (ACTION, ''ctrl+shift+a'')]
           [(ACTION, ''ctrl+shift+a''), (DICTATION, ''fn'')]"
    by (simp add: dict_eq_def)
  have c: "target_hotkeys configured_manager =
      Some [(DICTATION, {''fn''}), (ACTION, {''ctrl'', ''shift'', ''a''})]"
    by (simp add: configured_manager_eq)
  from set_hotkeys_idempotent [of "[(ACTION, ''ctrl+shift+a''), (DICTATION, ''fn'')]"
      configured_manager "[(DICTATION, ''fn''), (ACTION, ''ctrl+shift+a'')]"] a b c
  show ?thesis by simp
qed





section \<open>Properties of the runner\<close>

text \<open>
  Claim C4. When the callback gets no buffer or an empty one, \<^verbatim>\<open>_process_recorded_audio\<close>
  returns at once: the runner and the status queue are as before. When the buffer is not
  empty and the transcription returns nothing, an empty string or only whitespace, the
  runner is as before and the queue has received the transcribing status and the error
  status of the empty transcription. In both cases no component has changed, so the runner
  is as idle as it was, \<^verbatim>\<open>process_command\<close> has not been called and the command processor
  has no new worker to run the engine.
\<close>

theorem empty_input_short_circuit:
  "(is_empty recorded_audio \<longrightarrow>
      process_recorded_audio recorded_audio asr join_result (r, sq) = (r, sq)) \<and>
   (\<not> is_empty recorded_audio \<and> transcript_empty t \<longrightarrow>
      process_recorded_audio recorded_audio (AsrReturns t) join_result (r, sq) =
        (r, runner_update_status (Str ''Error: Transcription empty'')
              (runner_update_status (Member TRANSCRIBING) sq))) \<and>
   (is_empty recorded_audio \<or> transcript_empty t \<longrightarrow>
      fst (process_recorded_audio recorded_audio (AsrReturns t) join_result (r, sq)) = r \<and>
      workers (command_processor
        (fst (process_recorded_audio recorded_audio (AsrReturns t) join_result (r, sq)))) =
        workers (command_processor r))"
  by (auto simp: process_recorded_audio_def transcript_empty_def Let_def split: option.splits)

lemma trigger_busy:
  "fst (is_processing (command_processor r)) \<Longrightarrow>
   trigger_interaction mode start_time (r, sq) =
     (r, runner_update_status (Member PROCESSING_BUSY) sq)"
  by (auto simp: trigger_interaction_def is_processing_def Let_def split: if_splits)

lemma trigger_recording:
  "\<not> fst (is_processing (command_processor r)) \<Longrightarrow> is_recording (audio_recorder r) \<Longrightarrow>
   trigger_interaction mode start_time (r, sq) =
     (r\<lparr>command_processor := snd (is_processing (command_processor r))\<rparr>,
      runner_update_status (Member ALREADY_RECORDING) sq)"
  by (simp add: trigger_interaction_def Let_def)

lemma trigger_accepted:
  "\<not> fst (is_processing (command_processor r)) \<Longrightarrow> \<not> is_recording (audio_recorder r) \<Longrightarrow>
   trigger_interaction mode start_time (r, sq) =
     (r\<lparr>command_processor := snd (is_processing (command_processor r)),
        action_queue := action_queue r @ [(START, start_time)], runner_mode := mode\<rparr>,
      runner_update_status (Member HOTKEY_PRESSED) sq)"
  by (simp add: trigger_interaction_def Let_def)

lemma start_handled:
  assumes "\<not> fst (is_processing (command_processor r))" "\<not> is_recording (audio_recorder r)"
    and "action_queue r = []"
  shows "run_iteration wi (trigger_interaction mode start_time (r, sq)) =
     (r\<lparr>command_processor := snd (is_processing (command_processor r)),
        action_queue := [], runner_mode := mode,
        context_manager := fetch_context_async mode wi (context_manager r),
        audio_recorder := started ProcessRecordedAudio (audio_recorder r)\<rparr>,
      ar_update_status (status_value RECORDING)
        (runner_update_status (Member HOTKEY_PRESSED) sq))"
  using assms
  by (simp add: trigger_accepted run_iteration_def handle_start_recording_def
      start_recording_idle Let_def)



lemma new_runner_idle:
  "\<not> fst (is_processing (command_processor new_Runner))"
  "\<not> is_recording (audio_recorder new_Runner)"
  "action_queue new_Runner = []"
  "snd (is_processing (command_processor new_Runner)) = new_CommandProcessor"
  by (simp_all add: new_Runner_def is_processing_def new_CommandProcessor_def is_recording_def
      new_AudioRecorder_def)

lemma recording_runner_eq:
  "recording_runner =
     new_Runner\<lparr>runner_mode := DICTATION,
       context_manager := fetching_manager,
       audio_recorder := started ProcessRecordedAudio new_AudioRecorder\<rparr>"
proof -
  have "fetch_context_async DICTATION (Some (Some ''TextEdit'')) new_ContextManager = fetching_manager"
    by (simp add: fetching_manager_def cm_run_def)
  then show ?thesis
    unfolding recording_runner_def
    by (simp add: start_handled new_runner_idle) (simp add: new_Runner_def)
qed

text \<open>
  The theorem of claim C4 on a fresh runner: with no buffer, and with a buffer of four bytes
  whose transcript is two spaces.
\<close>

theorem empty_input_short_circuit_witness:
  "is_empty NoBuffer \<and>
   process_recorded_audio NoBuffer (AsrReturns (Some ''bold'')) None (new_Runner, empty_queue) =
     (new_Runner, empty_queue) \<and>
   \<not> is_empty (BufferObject [82, 73, 70, 70]) \<and> transcript_empty (Some ''  '') \<and>
   process_recorded_audio (BufferObject [82, 73, 70, 70]) (AsrReturns (Some ''  '')) None
       (new_Runner, empty_queue) =
     (new_Runner, Some \<lparr>maxsize = 0, items =
        [Str ''Transcribing command...'', Str ''Error: Transcription empty'']\<rparr>) \<and>
   workers (command_processor (fst (process_recorded_audio (BufferObject [82, 73, 70, 70])
       (AsrReturns (Some ''  '')) None (new_Runner, empty_queue)))) = []"
proof -
  have a: "is_empty NoBuffer" by simp
  have b: "\<not> is_empty (BufferObject [82, 73, 70, 70])" by simp
  have c: "transcript_empty (Some ''  '')"
    by (simp add: transcript_empty_def blank_def strip_def isspace_def)
  have q: "runner_update_status (Str ''Error: Transcription empty'')
              (runner_update_status (Member TRANSCRIBING) empty_queue) =
     Some \<lparr>maxsize = 0, items =
        [Str ''Transcribing command...'', Str ''Error: Transcription empty'']\<rparr>"
    by (simp add: runner_update_status_def put_status_unbounded empty_queue_def)
  have w: "workers (command_processor new_Runner) = []"
    by (simp add: new_Runner_def new_CommandProcessor_def)
  from empty_input_short_circuit [of NoBuffer "AsrReturns (Some ''bold'')" None new_Runner
      empty_queue "Some ''bold''"]
    empty_input_short_circuit [of "BufferObject [82, 73, 70, 70]" "AsrReturns (Some ''  '')" None
      new_Runner empty_queue "Some ''  ''"] a b c q w
  show ?thesis by simp
qed




lemma recording_runner_recording:
  "\<not> fst (is_processing (command_processor recording_runner))"
  "is_recording (audio_recorder recording_runner)"
  "snd (is_processing (command_processor recording_runner)) = command_processor recording_runner"
  "timers (command_processor recording_runner) = []"
  by (simp_all add: recording_runner_eq new_Runner_def is_processing_def new_CommandProcessor_def
      is_recording_def started_def)


section \<open>Status events at the end of an action\<close>

lemma finish_reports:
  assumes "map_of (workers s) t = Some a"
  shows "snd (processing_thread_finish t engine (s, sq)) =
           cp_update_status (final_status (try_body a engine)) sq"
    and "timers (fst (processing_thread_finish t engine (s, sq))) =
           timers s @ [(1.5, Str ''Ready'')]"
    and "\<not> is_processing_flag (fst (processing_thread_finish t engine (s, sq)))"
  using assms by (simp_all add: processing_thread_finish_def)

lemma finish_then_timer:
  assumes "map_of (workers s) t = Some a" and "timers s = []" and "maxsize q = 0"
  shows "snd (timer_fires (processing_thread_finish t engine (s, Some q))) =
     Some (q\<lparr>items := items q @ [final_status (try_body a engine), Str ''Ready'']\<rparr>)"
  using assms
  by (simp add: processing_thread_finish_def timer_fires_def cp_update_status_def
      put_status_unbounded)

lemma rejected_trigger_no_timer:
  assumes "fst (is_processing (command_processor r)) \<or> is_recording (audio_recorder r)"
  shows "timers (command_processor (fst (trigger_interaction mode start_time (r, sq)))) =
           timers (command_processor r) \<and>
         (snd (trigger_interaction mode start_time (r, sq)) =
            runner_update_status (Member PROCESSING_BUSY) sq \<or>
          snd (trigger_interaction mode start_time (r, sq)) =
            runner_update_status (Member ALREADY_RECORDING) sq)"
proof (cases "fst (is_processing (command_processor r))")
  case True
  then show ?thesis by (simp add: trigger_busy)
next
  case False
  with assms have "is_recording (audio_recorder r)" by simp
  with False show ?thesis
    by (simp add: trigger_recording) (simp add: is_processing_def split: if_splits)
qed

text \<open>
  Claim C7, as the code has it. When the engine call of a worker ends, by returning or by
  raising, the worker calls \<^verbatim>\<open>_update_status\<close> once, with the final status, and starts one
  timer of 1.5 seconds whose firing puts \<^verbatim>\<open>"Ready"\<close>; on an unbounded queue with no other
  timer pending the queue gains the final status and then Ready. A rejected trigger puts
  one status, \<^verbatim>\<open>PROCESSING_BUSY\<close> or \<^verbatim>\<open>ALREADY_RECORDING\<close>, and starts no timer; a command
  rejected by a busy processor puts \<^verbatim>\<open>BUSY\<close> and leaves the processor, timers included, as
  it was.
\<close>

theorem terminal_status_then_ready:
  "(map_of (workers s) t = Some a \<longrightarrow>
      snd (processing_thread_finish t engine (s, sq)) =
        cp_update_status (final_status (try_body a engine)) sq \<and>
      timers (fst (processing_thread_finish t engine (s, sq))) =
        timers s @ [(1.5, Str ''Ready'')] \<and>
      (timers s = [] \<and> sq = Some q \<and> maxsize q = 0 \<longrightarrow>
         snd (timer_fires (processing_thread_finish t engine (s, sq))) =
           Some (q\<lparr>items := items q @ [final_status (try_body a engine), Str ''Ready'']\<rparr>))) \<and>
   (fst (is_processing (command_processor r)) \<or> is_recording (audio_recorder r) \<longrightarrow>
      timers (command_processor (fst (trigger_interaction mode start_time (r, rq)))) =
        timers (command_processor r) \<and>
      (snd (trigger_interaction mode start_time (r, rq)) =
         runner_update_status (Member PROCESSING_BUSY) rq \<or>
       snd (trigger_interaction mode start_time (r, rq)) =
         runner_update_status (Member ALREADY_RECORDING) rq)) \<and>
   (is_processing_flag s \<and> \<not> empty_command text audio \<longrightarrow>
      process_command c text audio m (s, sq) = (False, s, cp_update_status (Member BUSY) sq))"
proof -
  have busy: "is_processing_flag s \<and> \<not> empty_command text audio \<longrightarrow>
      process_command c text audio m (s, sq) = (False, s, cp_update_status (Member BUSY) sq)"
    by (auto simp: process_command_def empty_command_def)
  from finish_reports(1,2) [of s t a engine sq] finish_then_timer [of s t a q engine]
    rejected_trigger_no_timer [of r mode start_time rq] busy
  show ?thesis by blast
qed

text \<open>
  The theorem of claim C7 on a processor whose only worker ends with an exception, on a
  trigger during a recording session, and on a command submitted to the busy processor.
\<close>

theorem terminal_status_then_ready_witness:
  "map_of (workers (fst busy_processor)) 0 =
     Some \<lparr>w_context = example_context, w_command = ''select all and bold'',
           w_mode = Some DICTATION, w_audio = None\<rparr> \<and>
   timers (fst busy_processor) = [] \<and>
   timers (fst (processing_thread_finish 0 (Raises ''boom'') busy_processor)) =
     [(1.5, Str ''Ready'')] \<and>
   snd (processing_thread_finish 0 (Raises ''boom'') busy_processor) =
     Some \<lparr>maxsize = 0, items = [Str ''Error processing: boom'']\<rparr> \<and>
   snd (timer_fires (processing_thread_finish 0 (Raises ''boom'') busy_processor)) =
     Some \<lparr>maxsize = 0, items = [Str ''Error processing: boom'', Str ''Ready'']\<rparr> \<and>
   is_recording (audio_recorder recording_runner) \<and>
   timers (command_processor (fst (trigger_interaction ACTION None
      (recording_runner, empty_queue)))) = [] \<and>
   is_processing_flag (fst busy_processor) \<and> \<not> empty_command ''undo'' None \<and>
   process_command example_context ''undo'' None (Some ACTION) busy_processor =
     (False, fst busy_processor, Some \<lparr>maxsize = 0, items = [Member BUSY]\<rparr>)"
proof -
  let ?a = "\<lparr>w_context = example_context, w_command = ''select all and bold'',
           w_mode = Some DICTATION, w_audio = None\<rparr>"
  have bp: "busy_processor = (fst busy_processor, Some \<lparr>maxsize = 0, items = []\<rparr>)"
    by (simp add: busy_processor_eq empty_queue_def)
  have w: "map_of (workers (fst busy_processor)) 0 = Some ?a"
    and tm: "timers (fst busy_processor) = []"
    and fl: "is_processing_flag (fst busy_processor)"
    by (simp_all add: busy_processor_eq)
  have ne: "\<not> empty_command ''undo'' None"
    by (simp add: empty_command_def blank_def strip_def isspace_def)
  have fs: "final_status (try_body ?a (Raises ''boom'')) = Str ''Error processing: boom''"
    by (simp add: final_status_def try_body_def)
  have qs: "cp_update_status (Str ''Error processing: boom'') (Some \<lparr>maxsize = 0, items = []\<rparr>) =
      Some \<lparr>maxsize = 0, items = [Str ''Error processing: boom'']\<rparr>"
    "cp_update_status (Member BUSY) (Some \<lparr>maxsize = 0, items = []\<rparr>) =
      Some \<lparr>maxsize = 0, items = [Member BUSY]\<rparr>"
    by (simp_all add: cp_update_status_def put_status_unbounded)
  note T = terminal_status_then_ready [of "fst busy_processor" 0 ?a "Raises ''boom''"
      "Some \<lparr>maxsize = 0, items = []\<rparr>" "\<lparr>maxsize = 0, items = []\<rparr>" recording_runner ACTION None
      empty_queue "''undo''" None example_context "Some ACTION"]
  from T w tm have
    f1: "snd (processing_thread_finish 0 (Raises ''boom'') (fst busy_processor, Some \<lparr>maxsize = 0, items = []\<rparr>)) =
        cp_update_status (final_status (try_body ?a (Raises ''boom''))) (Some \<lparr>maxsize = 0, items = []\<rparr>)"
    and f2: "timers (fst (processing_thread_finish 0 (Raises ''boom'') (fst busy_processor, Some \<lparr>maxsize = 0, items = []\<rparr>))) =
        timers (fst busy_processor) @ [(1.5, Str ''Ready'')]"
    and f3: "snd (timer_fires (processing_thread_finish 0 (Raises ''boom'') (fst busy_processor, Some \<lparr>maxsize = 0, items = []\<rparr>))) =
        Some (\<lparr>maxsize = 0, items = []\<rparr>\<lparr>items := items \<lparr>maxsize = 0, items = []\<rparr> @
          [final_status (try_body ?a (Raises ''boom'')), Str ''Ready'']\<rparr>)"
    by simp_all
  from T recording_runner_recording(2) have
    f4: "timers (command_processor (fst (trigger_interaction ACTION None
      (recording_runner, empty_queue)))) = timers (command_processor recording_runner)"
    by blast
  from T fl ne have
    f5: "process_command example_context ''undo'' None (Some ACTION)
      (fst busy_processor, Some \<lparr>maxsize = 0, items = []\<rparr>) =
      (False, fst busy_processor, cp_update_status (Member BUSY) (Some \<lparr>maxsize = 0, items = []\<rparr>))"
    by blast
  from f1 f2 f3 f4 f5 w tm fl ne recording_runner_recording show ?thesis
    unfolding fs qs by (subst (1 2 3 4) bp) simp
qed

text \<open>
  Claim C7 as stated fails for a rejected action: a trigger during a recording session puts
  the status \<^verbatim>\<open>ALREADY_RECORDING\<close> and no timer is pending afterwards, so no Ready follows
  it after the delay.
\<close>

theorem rejected_trigger_no_ready_counterexample:
  "is_recording (audio_recorder recording_runner) \<and>
   trigger_interaction ACTION None (recording_runner, empty_queue) =
     (recording_runner, Some \<lparr>maxsize = 0, items = [Str ''Already recording...'']\<rparr>) \<and>
   timers (command_processor recording_runner) = [] \<and>
   timer_fires (command_processor recording_runner,
                Some \<lparr>maxsize = 0, items = [Str ''Already recording...'']\<rparr>) =
     (command_processor recording_runner,
      Some \<lparr>maxsize = 0, items = [Str ''Already recording...'']\<rparr>)"
  using recording_runner_recording
  by (simp add: trigger_recording timer_fires_def runner_update_status_def put_status_unbounded
      empty_queue_def)
end
